theory Spec2Isabelle
  imports Complex_Main "HOL-Library.AList"
begin

section \<open>The portfolio accounting engine of core/portfolio.py\<close>

text \<open>
  A shallow embedding of \<^verbatim>\<open>NaivePortfolio\<close>. Conventions of the model:
  \<^item> Python numbers are real numbers: arithmetic is exact, and prices, quantities and
    commissions are finite (no rounding, overflow, infinity or NaN in the ledgers). The
    special values that pandas produces in the equity curve are modelled separately.
  \<^item> A dict with string keys is a map \<open>string \<rightharpoonup> 'v\<close>; a read of a missing key is the
    error \<open>KeyError\<close>.
  \<^item> A method that mutates \<^verbatim>\<open>self\<close> takes the portfolio and returns the new one, or
    the exception it raises (\<open>Inl\<close>); what it had already mutated when it raised is not
    kept.
  \<^item> The market-data handler \<^verbatim>\<open>self.bars\<close> is an external object that moves from
    bar to bar; each method takes its state at the time of the call as an argument.
  \<^item> Events are values; two events of a sequence are different objects.
\<close>

subsection \<open>Errors and values\<close>

datatype error =
    KeyError string
  | IndexError
  | ZeroDivisionError
  | TypeError
  | AttributeError string

definition bind_err :: "error + 'a \<Rightarrow> ('a \<Rightarrow> error + 'b) \<Rightarrow> error + 'b" where
  "bind_err r f = (case r of Inl e \<Rightarrow> Inl e | Inr v \<Rightarrow> f v)"

type_synonym datetime = int

text \<open>The values held by a snapshot record: a number, or the bar's timestamp.\<close>

datatype pyval = Num real | Stamp datetime

type_synonym snapshot = "string \<rightharpoonup> pyval"

subsection \<open>Events and the data handler\<close>

text \<open>
  Modelled from the spec: core/event.py is not part of the sources. The records hold the
  attributes that portfolio.py reads (section 6 of the specification): \<open>type\<close>,
  \<open>symbol\<close>, \<open>quantity\<close>, \<open>signal_type\<close> of a signal; \<open>type\<close>, \<open>symbol\<close>,
  \<open>quantity\<close>, \<open>direction\<close>, \<open>commission\<close>, \<open>order\<close> of a fill; \<open>order_id\<close> of an
  order and, in the order history, its \<open>profit\<close> (\<open>None\<close> when the attribute is not
  set). \<open>fill_price\<close> is the price carried on the fill of section 4.1; portfolio.py never
  reads it. The record of a fill is polymorphic in its \<open>order\<close> attribute, which is an
  order object on the event and its identifier in the fill log.
\<close>

record order_event =
  order_id :: nat
  profit :: "real option"

record instrument_event =
  type :: string
  symbol :: string
  quantity :: real

record signal_event = instrument_event +
  signal_type :: string

record 'o fill_event = instrument_event +
  direction :: string
  commission :: real
  order :: 'o
  fill_price :: real

text \<open>
  Modelled from the spec: the data handler (section 6), \<^verbatim>\<open>bars.symbol_list\<close>,
  \<^verbatim>\<open>bars.get_latest_bar_datetime(symbol)\<close> and
  \<^verbatim>\<open>bars.get_latest_bar_value(symbol, field)\<close>, at one moment of the run.
\<close>

record data_handler =
  bars_symbol_list :: "string list"
  get_latest_bar_datetime :: "string \<Rightarrow> datetime"
  get_latest_bar_value :: "string \<Rightarrow> string \<Rightarrow> real"

subsection \<open>The portfolio\<close>

text \<open>
  The special values of a pandas float column: a finite number, the two infinities, and
  NaN (``no value''). Signed zeros are not distinguished.
\<close>

datatype pyfloat = Fin real | PInf | NInf | NaN

text \<open>
  The dataframe \<^verbatim>\<open>self.equity_curve\<close>: the holdings records and the columns
  \<^verbatim>\<open>returns\<close>, \<^verbatim>\<open>equity_curve\<close> and, once the summary has run, \<^verbatim>\<open>drawdown\<close>.
\<close>

record equity_frame =
  rows :: "snapshot list"
  returns :: "pyfloat list"
  equity_curve_column :: "pyfloat list"
  drawdown :: "pyfloat list option"

record portfolio =
  symbol_list :: "string list"
  start_date :: datetime
  initial_capital :: real
  all_positions :: "snapshot list"
  current_positions :: "string \<rightharpoonup> real"
  all_holdings :: "snapshot list"
  current_holdings :: "string \<rightharpoonup> real"
  all_orders :: "(nat \<times> order_event) list"
  all_fills :: "nat fill_event list"
  equity_curve :: "equity_frame option"
  order_history :: "order_event list option"

text \<open>\<^verbatim>\<open>dict((k,v) for k, v in [(s, x) for s in self.symbol_list])\<close>\<close>

definition dict_of_symbols :: "string list \<Rightarrow> 'v \<Rightarrow> (string \<rightharpoonup> 'v)" where
  "dict_of_symbols syms x = map_of (map (\<lambda>s. (s, x)) syms)"

definition construct_all_positions :: "string list \<Rightarrow> datetime \<Rightarrow> snapshot list" where
  "construct_all_positions syms start =
     (let d = dict_of_symbols syms (Num 0);
          d = d(''datetime'' \<mapsto> Stamp start)
      in [d])"

definition construct_all_holdings :: "string list \<Rightarrow> datetime \<Rightarrow> real \<Rightarrow> snapshot list" where
  "construct_all_holdings syms start capital =
     (let d = dict_of_symbols syms (Num 0);
          d = d(''datetime'' \<mapsto> Stamp start);
          d = d(''cash'' \<mapsto> Num capital);
          d = d(''commission'' \<mapsto> Num 0);
          d = d(''total'' \<mapsto> Num capital)
      in [d])"

definition construct_current_holdings :: "string list \<Rightarrow> real \<Rightarrow> (string \<rightharpoonup> real)" where
  "construct_current_holdings syms capital =
     (let d = dict_of_symbols syms 0;
          d = d(''cash'' \<mapsto> capital);
          d = d(''commission'' \<mapsto> 0);
          d = d(''total'' \<mapsto> capital)
      in d)"

text \<open>\<^verbatim>\<open>NaivePortfolio.__init__\<close>; the two dataframes do not exist yet.\<close>

definition NaivePortfolio :: "data_handler \<Rightarrow> datetime \<Rightarrow> real \<Rightarrow> portfolio" where
  "NaivePortfolio bars start capital =
     (let syms = bars_symbol_list bars in
      \<lparr> symbol_list = syms,
        start_date = start,
        initial_capital = capital,
        all_positions = construct_all_positions syms start,
        current_positions = dict_of_symbols syms 0,
        all_holdings = construct_all_holdings syms start capital,
        current_holdings = construct_current_holdings syms capital,
        all_orders = [],
        all_fills = [],
        equity_curve = None,
        order_history = None \<rparr>)"

subsection \<open>Applying a fill\<close>

text \<open>\<^verbatim>\<open>d[k] += x\<close> and \<^verbatim>\<open>d[k] -= x\<close> on a dict of numbers.\<close>

definition dict_iadd :: "(string \<rightharpoonup> real) \<Rightarrow> string \<Rightarrow> real \<Rightarrow> error + (string \<rightharpoonup> real)" where
  "dict_iadd d k x = (case d k of None \<Rightarrow> Inl (KeyError k) | Some v \<Rightarrow> Inr (d(k \<mapsto> v + x)))"

definition dict_isub :: "(string \<rightharpoonup> real) \<Rightarrow> string \<Rightarrow> real \<Rightarrow> error + (string \<rightharpoonup> real)" where
  "dict_isub d k x = (case d k of None \<Rightarrow> Inl (KeyError k) | Some v \<Rightarrow> Inr (d(k \<mapsto> v - x)))"

definition update_positions_from_fill ::
  "portfolio \<Rightarrow> order_event fill_event \<Rightarrow> error + portfolio" where
  "update_positions_from_fill p fill =
     (let fill_dir = 0;
          fill_dir = (if direction fill = ''BUY'' then 1 else fill_dir);
          fill_dir = (if direction fill = ''SELL'' then - 1 else fill_dir)
      in bind_err (dict_iadd (current_positions p) (symbol fill) (fill_dir * quantity fill))
           (\<lambda>d. Inr (p\<lparr>current_positions := d\<rparr>)))"

definition update_holdings_from_fill ::
  "data_handler \<Rightarrow> portfolio \<Rightarrow> order_event fill_event \<Rightarrow> error + portfolio" where
  "update_holdings_from_fill bars p fill =
     (let fill_dir = 0;
          fill_dir = (if direction fill = ''BUY'' then 1 else fill_dir);
          fill_dir = (if direction fill = ''SELL'' then - 1 else fill_dir);
          fill_cost = get_latest_bar_value bars (symbol fill) ''close'';
          cost = fill_dir * fill_cost * quantity fill
      in bind_err (dict_iadd (current_holdings p) (symbol fill) cost) (\<lambda>d.
         bind_err (dict_iadd d ''commission'' (commission fill)) (\<lambda>d.
         bind_err (dict_isub d ''cash'' (cost + commission fill)) (\<lambda>d.
         bind_err (dict_isub d ''total'' (cost + commission fill)) (\<lambda>d.
         Inr (p\<lparr>current_holdings := d\<rparr>))))))"

definition update_orders_from_fill :: "portfolio \<Rightarrow> order_event fill_event \<Rightarrow> portfolio" where
  "update_orders_from_fill p fill =
     (let order = order fill
      in p\<lparr>all_orders := AList.update (order_id order) order (all_orders p)\<rparr>)"

text \<open>
  \<^verbatim>\<open>fill = vars(event); fill['order'] = event.order.order_id\<close>: the attributes of the
  event with the order replaced by its identifier.
\<close>

definition vars_with_order_id :: "order_event fill_event \<Rightarrow> nat fill_event" where
  "vars_with_order_id event =
     \<lparr> type = type event, symbol = symbol event, quantity = quantity event,
       direction = direction event, commission = commission event,
       order = order_id (order event), fill_price = fill_price event \<rparr>"

definition update_fill ::
  "data_handler \<Rightarrow> portfolio \<Rightarrow> order_event fill_event \<Rightarrow> error + portfolio" where
  "update_fill bars p event =
     (if type event = ''FILL'' then
        bind_err (update_positions_from_fill p event) (\<lambda>p.
        bind_err (update_holdings_from_fill bars p event) (\<lambda>p.
          let p = update_orders_from_fill p event;
              fill = vars_with_order_id event
          in Inr (p\<lparr>all_fills := all_fills p @ [fill]\<rparr>)))
      else Inr p)"

fun update_fills ::
  "data_handler \<Rightarrow> portfolio \<Rightarrow> order_event fill_event list \<Rightarrow> error + portfolio" where
  "update_fills bars p [] = Inr p"
| "update_fills bars p (event # events) =
     bind_err (update_fill bars p event) (\<lambda>p. update_fills bars p events)"

subsection \<open>The snapshot at a bar boundary\<close>

definition dict_get :: "(string \<rightharpoonup> 'v) \<Rightarrow> string \<Rightarrow> error + 'v" where
  "dict_get d k = (case d k of None \<Rightarrow> Inl (KeyError k) | Some v \<Rightarrow> Inr v)"

text \<open>\<^verbatim>\<open>dh[k] += x\<close> on a snapshot record, whose values are numbers or timestamps.\<close>

definition snapshot_iadd :: "snapshot \<Rightarrow> string \<Rightarrow> real \<Rightarrow> error + snapshot" where
  "snapshot_iadd d k x =
     (case d k of
        None \<Rightarrow> Inl (KeyError k)
      | Some (Stamp t) \<Rightarrow> Inl TypeError
      | Some (Num v) \<Rightarrow> Inr (d(k \<mapsto> Num (v + x))))"

text \<open>\<^verbatim>\<open>for s in self.symbol_list: dp[s] = self.current_positions[s]\<close>\<close>

fun update_timeindex_positions ::
  "(string \<rightharpoonup> real) \<Rightarrow> string list \<Rightarrow> snapshot \<Rightarrow> error + snapshot" where
  "update_timeindex_positions cur [] dp = Inr dp"
| "update_timeindex_positions cur (s # ss) dp =
     bind_err (dict_get cur s) (\<lambda>q. update_timeindex_positions cur ss (dp(s \<mapsto> Num q)))"

text \<open>The loop that marks every instrument at the latest close and adds it to the total.\<close>

fun update_timeindex_holdings ::
  "data_handler \<Rightarrow> (string \<rightharpoonup> real) \<Rightarrow> string list \<Rightarrow> snapshot \<Rightarrow> error + snapshot" where
  "update_timeindex_holdings bars cur [] dh = Inr dh"
| "update_timeindex_holdings bars cur (s # ss) dh =
     bind_err (dict_get cur s) (\<lambda>q.
       let market_value = q * get_latest_bar_value bars s ''close'';
           dh = dh(s \<mapsto> Num market_value)
       in bind_err (snapshot_iadd dh ''total'' market_value) (\<lambda>dh.
            update_timeindex_holdings bars cur ss dh))"

definition update_timeindex :: "data_handler \<Rightarrow> portfolio \<Rightarrow> error + portfolio" where
  "update_timeindex bars p =
     (case symbol_list p of
        [] \<Rightarrow> Inl IndexError
      | s0 # _ \<Rightarrow>
          let latest_datetime = get_latest_bar_datetime bars s0;
              dp = dict_of_symbols (symbol_list p) (Num 0);
              dp = dp(''datetime'' \<mapsto> Stamp latest_datetime)
          in bind_err (update_timeindex_positions (current_positions p) (symbol_list p) dp) (\<lambda>dp.
             let p = p\<lparr>all_positions := all_positions p @ [dp]\<rparr>;
                 dh = dict_of_symbols (symbol_list p) (Num 0);
                 dh = dh(''datetime'' \<mapsto> Stamp latest_datetime)
             in bind_err (dict_get (current_holdings p) ''cash'') (\<lambda>cash.
                bind_err (dict_get (current_holdings p) ''commission'') (\<lambda>commission.
                  let dh = dh(''cash'' \<mapsto> Num cash);
                      dh = dh(''commission'' \<mapsto> Num commission);
                      dh = dh(''total'' \<mapsto> Num cash)
                  in bind_err
                       (update_timeindex_holdings bars (current_positions p) (symbol_list p) dh)
                       (\<lambda>dh. Inr (p\<lparr>all_holdings := all_holdings p @ [dh]\<rparr>))))))"

subsection \<open>Naive order generation\<close>

text \<open>
  The constructor \<^verbatim>\<open>OrderEvent(signal, quantity, direction)\<close> of core/event.py is not
  part of the sources: it is a parameter, and so is the type of the orders it builds.
\<close>

definition generate_naive_order ::
  "(signal_event \<Rightarrow> real \<Rightarrow> string \<Rightarrow> 'o) \<Rightarrow> portfolio \<Rightarrow> signal_event \<Rightarrow> error + 'o option" where
  "generate_naive_order OrderEvent p signal =
     (let order = None;
          direction = signal_type signal
      in bind_err (dict_get (current_positions p) (symbol signal)) (\<lambda>cur_quantity.
         let order = (if direction = ''LONG''
                      then Some (OrderEvent signal (quantity signal) ''BUY'') else order);
             order = (if direction = ''SHORT''
                      then Some (OrderEvent signal (quantity signal) ''SELL'') else order);
             order = (if direction = ''EXIT'' \<and> cur_quantity > 0
                      then Some (OrderEvent signal \<bar>cur_quantity\<bar> ''SELL'') else order);
             order = (if direction = ''EXIT'' \<and> cur_quantity < 0
                      then Some (OrderEvent signal \<bar>cur_quantity\<bar> ''BUY'') else order)
         in Inr order))"

text \<open>
  \<^verbatim>\<open>self.events\<close> is the unbounded queue shared with the dispatch loop: a list, with
  \<^verbatim>\<open>put\<close> adding at the end. The method returns the queue; it does not touch the
  portfolio.
\<close>

definition update_signal ::
  "(signal_event \<Rightarrow> real \<Rightarrow> string \<Rightarrow> 'o) \<Rightarrow> portfolio \<Rightarrow> 'o option list \<Rightarrow> signal_event
     \<Rightarrow> error + 'o option list" where
  "update_signal OrderEvent p events event =
     (if type event = ''SIGNAL'' then
        bind_err (generate_naive_order OrderEvent p event) (\<lambda>order_event.
          Inr (events @ [order_event]))
      else Inr events)"

subsection \<open>Performance reporting\<close>

text \<open>Arithmetic of a float column, on the special values as IEEE 754 defines it.\<close>

definition inf_of_sign :: "real \<Rightarrow> pyfloat" where
  "inf_of_sign s = (if s > 0 then PInf else if s < 0 then NInf else NaN)"

fun float_sign :: "pyfloat \<Rightarrow> real" where
  "float_sign (Fin a) = sgn a"
| "float_sign PInf = 1"
| "float_sign NInf = - 1"
| "float_sign NaN = 0"

fun float_add :: "pyfloat \<Rightarrow> pyfloat \<Rightarrow> pyfloat" where
  "float_add (Fin a) (Fin b) = Fin (a + b)"
| "float_add NaN y = NaN"
| "float_add x NaN = NaN"
| "float_add (Fin a) y = y"
| "float_add x (Fin b) = x"
| "float_add x y = (if x = y then x else NaN)"

fun float_neg :: "pyfloat \<Rightarrow> pyfloat" where
  "float_neg (Fin a) = Fin (- a)"
| "float_neg PInf = NInf"
| "float_neg NInf = PInf"
| "float_neg NaN = NaN"

definition float_sub :: "pyfloat \<Rightarrow> pyfloat \<Rightarrow> pyfloat" where
  "float_sub x y = float_add x (float_neg y)"

fun float_mul :: "pyfloat \<Rightarrow> pyfloat \<Rightarrow> pyfloat" where
  "float_mul (Fin a) (Fin b) = Fin (a * b)"
| "float_mul NaN y = NaN"
| "float_mul x NaN = NaN"
| "float_mul x y = inf_of_sign (float_sign x * float_sign y)"

fun float_truediv :: "pyfloat \<Rightarrow> pyfloat \<Rightarrow> pyfloat" where
  "float_truediv (Fin a) (Fin b) = (if b \<noteq> 0 then Fin (a / b) else inf_of_sign (sgn a))"
| "float_truediv NaN y = NaN"
| "float_truediv x NaN = NaN"
| "float_truediv (Fin a) y = Fin 0"
| "float_truediv x (Fin b) = inf_of_sign (float_sign x * (if b < 0 then - 1 else 1))"
| "float_truediv x y = NaN"

text \<open>
  \<^verbatim>\<open>Series.pct_change()\<close> of pandas on a column without missing values: the column
  divided by itself shifted one row down, minus one.
\<close>

definition shift :: "pyfloat list \<Rightarrow> pyfloat list" where
  "shift xs = (case xs of [] \<Rightarrow> [] | _ # _ \<Rightarrow> NaN # butlast xs)"

definition pct_change :: "pyfloat list \<Rightarrow> pyfloat list" where
  "pct_change xs =
     map (\<lambda>(x, prev). float_sub (float_truediv x prev) (Fin 1)) (zip xs (shift xs))"

text \<open>
  \<^verbatim>\<open>Series.cumprod()\<close> of pandas: the running product, which skips a NaN entry and
  leaves NaN at its place.
\<close>

fun cumprod_from :: "pyfloat \<Rightarrow> pyfloat list \<Rightarrow> pyfloat list" where
  "cumprod_from acc [] = []"
| "cumprod_from acc (x # xs) =
     (if x = NaN then NaN # cumprod_from acc xs
      else float_mul acc x # cumprod_from (float_mul acc x) xs)"

definition cumprod :: "pyfloat list \<Rightarrow> pyfloat list" where
  "cumprod xs = cumprod_from (Fin 1) xs"

text \<open>
  \<^verbatim>\<open>curve['total']\<close>. Every record that this module appends to \<^verbatim>\<open>all_holdings\<close> has a
  number under \<^verbatim>\<open>'total'\<close>. What pandas makes of a record without one is outside the
  model, which gives \<open>KeyError\<close> or \<open>TypeError\<close> there.
\<close>

fun column_total :: "snapshot list \<Rightarrow> error + pyfloat list" where
  "column_total [] = Inr []"
| "column_total (d # ds) =
     (case d ''total'' of
        None \<Rightarrow> Inl (KeyError ''total'')
      | Some (Stamp t) \<Rightarrow> Inl TypeError
      | Some (Num x) \<Rightarrow> bind_err (column_total ds) (\<lambda>xs. Inr (Fin x # xs)))"

text \<open>
  \<^verbatim>\<open>curve.set_index('datetime', inplace=True)\<close> on the dataframe built from the list of
  holdings records. The dataframe has the column \<^verbatim>\<open>'datetime'\<close> when at least one record
  has the key, and none when the list is empty; without the column \<^verbatim>\<open>set_index\<close> raises
  \<open>KeyError\<close>. The rows keep their order, by which the two new columns go.
\<close>

definition set_index_datetime :: "snapshot list \<Rightarrow> error + snapshot list" where
  "set_index_datetime ds =
     (if list_ex (\<lambda>d. d ''datetime'' \<noteq> None) ds then Inr ds
      else Inl (KeyError ''datetime''))"

definition create_equity_curve_dataframe :: "portfolio \<Rightarrow> error + portfolio" where
  "create_equity_curve_dataframe p =
     bind_err (set_index_datetime (all_holdings p)) (\<lambda>curve.
     bind_err (column_total curve) (\<lambda>total.
       let returns = pct_change total;
           equity_curve = cumprod (map (float_add (Fin 1)) returns);
           curve = \<lparr> rows = curve, returns = returns,
                     equity_curve_column = equity_curve, drawdown = None \<rparr>
       in Inr (p\<lparr>equity_curve := Some curve\<rparr>)))"

text \<open>
  \<^verbatim>\<open>pd.DataFrame([vars(c) for c in self.all_orders.values()])\<close>: one row per order of
  the registry, in the order of insertion.
\<close>

definition create_order_history_dataframe :: "portfolio \<Rightarrow> portfolio" where
  "create_order_history_dataframe p = p\<lparr>order_history := Some (map snd (all_orders p))\<rparr>"

text \<open>
  \<^verbatim>\<open>self.order_history['profit']\<close>. A dataframe built from a list of attribute dicts
  has the column when at least one row has the attribute (the other rows hold NaN,
  \<open>None\<close> here); without the column the lookup raises \<open>KeyError\<close>. A dataframe built
  from the empty list has no column at all.
\<close>

definition column_profit :: "order_event list \<Rightarrow> error + real option list" where
  "column_profit df =
     (if list_ex (\<lambda>c. profit c \<noteq> None) df then Inr (map profit df)
      else Inl (KeyError ''profit''))"

text \<open>
  The entries of a column that are not NaN: \<^verbatim>\<open>Series.sum()\<close> skips NaN, and a
  comparison with NaN is false, so that a row without a profit is in neither selection.
\<close>

definition dropna :: "real option list \<Rightarrow> real list" where
  "dropna col = List.map_filter (\<lambda>x. x) col"

text \<open>\<^verbatim>\<open>a / b\<close> on Python integers.\<close>

definition int_truediv :: "nat \<Rightarrow> nat \<Rightarrow> error + real" where
  "int_truediv a b = (if b = 0 then Inl ZeroDivisionError else Inr (real a / real b))"

text \<open>The numbers that the summary formats into its list of labelled strings.\<close>

record summary_stats =
  stats_profit :: real
  stats_sharpe_ratio :: real
  stats_max_dd :: real
  stats_dd_duration :: real
  stats_winrate :: real
  stats_trade_no :: nat
  stats_total_profit :: real
  stats_total_loss :: real

text \<open>
  \<^verbatim>\<open>output_summary_stats\<close>, up to the formatting of the strings. The functions of
  core/performance.py, which is not part of the sources, and Python's \<^verbatim>\<open>round\<close> on
  floats are parameters. The column \<^verbatim>\<open>'profit'\<close> is looked up once: the source looks it
  up again for each statistic, on the same dataframe.
\<close>

definition output_summary_stats ::
  "(pyfloat list \<Rightarrow> nat \<Rightarrow> error + real)
   \<Rightarrow> (pyfloat list \<Rightarrow> error + pyfloat list \<times> real \<times> real)
   \<Rightarrow> (real \<Rightarrow> nat \<Rightarrow> real)
   \<Rightarrow> portfolio \<Rightarrow> error + portfolio \<times> summary_stats" where
  "output_summary_stats create_sharpe_ratio create_drawdowns py_round p =
     (case equity_curve p of
        None \<Rightarrow> Inl (AttributeError ''equity_curve'')
      | Some curve \<Rightarrow>
          if equity_curve_column curve = [] then Inl IndexError
          else
            let total_return = last (equity_curve_column curve);
                returns = returns curve;
                pnl = equity_curve_column curve
            in bind_err (create_sharpe_ratio returns (252 * 6)) (\<lambda>sharpe_ratio.
               bind_err (create_drawdowns pnl) (\<lambda>(drawdown, max_dd, dd_duration).
                 let p = p\<lparr>equity_curve := Some (curve\<lparr>drawdown := Some drawdown\<rparr>)\<rparr>
                 in case order_history p of
                      None \<Rightarrow> Inl (AttributeError ''order_history'')
                    | Some df \<Rightarrow>
                        bind_err (column_profit df) (\<lambda>col.
                          let profit = sum_list (dropna col);
                              profit = py_round profit 1;
                              wins = filter (\<lambda>v. v > 0) (dropna col);
                              total_profit = sum_list wins;
                              total_profit = py_round total_profit 1;
                              losses = filter (\<lambda>v. v < 0) (dropna col);
                              total_loss = sum_list losses;
                              total_loss = py_round total_loss 1;
                              trade_no = length df
                          in bind_err (int_truediv (length wins) trade_no) (\<lambda>q.
                               let winrate = py_round q 3
                               in Inr (p, \<lparr> stats_profit = profit,
                                            stats_sharpe_ratio = sharpe_ratio,
                                            stats_max_dd = max_dd,
                                            stats_dd_duration = dd_duration,
                                            stats_winrate = winrate,
                                            stats_trade_no = trade_no,
                                            stats_total_profit = total_profit,
                                            stats_total_loss = total_loss \<rparr>))))))"

subsection \<open>The equity curve as the specification words it\<close>

text \<open>
  Section 8 of the specification: the equity curve at index \<open>t\<close> is the product of
  \<open>1 + return\<close> over the defined returns up to \<open>t\<close>. This definition follows those
  words, in the arithmetic of the column, to be compared with the column that
  \<^verbatim>\<open>create_equity_curve_dataframe\<close> builds; over no defined return the product is 1.
\<close>

definition product_of_defined_returns :: "pyfloat list \<Rightarrow> nat \<Rightarrow> pyfloat" where
  "product_of_defined_returns rs t =
     foldl float_mul (Fin 1) (map (float_add (Fin 1)) (filter (\<lambda>r. r \<noteq> NaN) (take (Suc t) rs)))"

subsection \<open>A run with one instrument\<close>

text \<open>
  The inputs of the examples: a data handler with the single instrument X whose latest
  close is given, and an event on X of 10 units with commission 1, carrying a price of
  its own.
\<close>

definition example_bars :: "real \<Rightarrow> data_handler" where
  "example_bars close =
     \<lparr> bars_symbol_list = [''X''],
       get_latest_bar_datetime = (\<lambda>s. 0),
       get_latest_bar_value = (\<lambda>s field. close) \<rparr>"

definition example_fill :: "string \<Rightarrow> string \<Rightarrow> real \<Rightarrow> order_event fill_event" where
  "example_fill ty dir price =
     \<lparr> type = ty, symbol = ''X'', quantity = 10, direction = dir, commission = 1,
       order = \<lparr>order_id = 1, profit = None\<rparr>, fill_price = price \<rparr>"

definition example_signal :: "string \<Rightarrow> signal_event" where
  "example_signal kind = \<lparr> type = ''SIGNAL'', symbol = ''X'', quantity = 10, signal_type = kind \<rparr>"

text \<open>Holdings records with a timestamp and the given totals.\<close>

definition example_holdings :: "real list \<Rightarrow> snapshot list" where
  "example_holdings totals = map (\<lambda>x. [''datetime'' \<mapsto> Stamp 0, ''total'' \<mapsto> Num x]) totals"

section \<open>Properties\<close>

subsection \<open>Basic facts\<close>

lemma bind_err_simps [simp]:
  "bind_err (Inl e) f = Inl e"
  "bind_err (Inr v) f = f v"
  by (simp_all add: bind_err_def)

lemma dict_get_Some: "d k = Some v \<Longrightarrow> dict_get d k = Inr v"
  by (simp add: dict_get_def)

lemmas example_defs =
  example_bars_def example_fill_def NaivePortfolio_def construct_all_positions_def
  construct_all_holdings_def construct_current_holdings_def dict_of_symbols_def

text \<open>
  The two ledger updates of a fill, when the keys they read are there and the symbol is
  not one of the three keys of the holdings that are not instruments.
\<close>

lemma update_positions_from_fill_eq:
  assumes "current_positions p (symbol fill) = Some q"
  shows "update_positions_from_fill p fill =
     Inr (p\<lparr>current_positions := (current_positions p)
            (symbol fill \<mapsto> q + (if direction fill = ''SELL'' then - 1
                                   else if direction fill = ''BUY'' then 1 else 0)
                                  * quantity fill)\<rparr>)"
  using assms by (simp add: update_positions_from_fill_def dict_iadd_def)

lemma update_holdings_from_fill_eq:
  assumes sym: "symbol fill \<noteq> ''commission''" "symbol fill \<noteq> ''cash''" "symbol fill \<noteq> ''total''"
    and v: "current_holdings p (symbol fill) = Some v"
    and k: "current_holdings p ''commission'' = Some k"
    and c: "current_holdings p ''cash'' = Some c"
    and t: "current_holdings p ''total'' = Some t"
  shows "update_holdings_from_fill bars p fill =
     (let fill_dir = (if direction fill = ''SELL'' then - 1
                      else if direction fill = ''BUY'' then 1 else 0);
          cost = fill_dir * get_latest_bar_value bars (symbol fill) ''close'' * quantity fill
      in Inr (p\<lparr>current_holdings := (current_holdings p)
               (symbol fill \<mapsto> v + cost,
                ''commission'' \<mapsto> k + commission fill,
                ''cash'' \<mapsto> c - (cost + commission fill),
                ''total'' \<mapsto> t - (cost + commission fill))\<rparr>))"
  using assms
  by (simp add: update_holdings_from_fill_def Let_def dict_iadd_def dict_isub_def)

subsection \<open>The holdings update of a fill\<close>

text \<open>
  C1, as the code has it. For a fill with direction BUY or SELL on an instrument of the
  holdings, the holdings update succeeds and prices the fill at the latest close of the
  instrument in the data handler, not at a price carried on the fill: the value of
  the instrument grows by sign * quantity * latest close, the commission grows by the
  commission of the fill, and cash and total each shrink by that amount plus the
  commission, where sign is +1 for BUY and -1 for SELL.
\<close>

theorem update_holdings_from_fill_latest_close:
  assumes "direction fill = ''BUY'' \<or> direction fill = ''SELL''"
    and "symbol fill \<notin> {''commission'', ''cash'', ''total''}"
    and "current_holdings p (symbol fill) = Some v"
    and "current_holdings p ''commission'' = Some k"
    and "current_holdings p ''cash'' = Some c"
    and "current_holdings p ''total'' = Some t"
  shows "\<exists>p'. update_holdings_from_fill bars p fill = Inr p'
     \<and> current_holdings p' (symbol fill)
         = Some (v + (if direction fill = ''BUY'' then 1 else - 1) * quantity fill
                       * get_latest_bar_value bars (symbol fill) ''close'')
     \<and> current_holdings p' ''commission'' = Some (k + commission fill)
     \<and> current_holdings p' ''cash''
         = Some (c - ((if direction fill = ''BUY'' then 1 else - 1) * quantity fill
                       * get_latest_bar_value bars (symbol fill) ''close'' + commission fill))
     \<and> current_holdings p' ''total''
         = Some (t - ((if direction fill = ''BUY'' then 1 else - 1) * quantity fill
                       * get_latest_bar_value bars (symbol fill) ''close'' + commission fill))"
  using assms
  by (auto simp add: update_holdings_from_fill_eq Let_def)

text \<open>A SELL of 10 units at a latest close of 50, with commission 1, on a fresh portfolio.\<close>

theorem update_holdings_from_fill_latest_close_witness:
  "\<exists>p'. update_holdings_from_fill (example_bars 50) (NaivePortfolio (example_bars 50) 0 100000)
          (example_fill ''FILL'' ''SELL'' 50) = Inr p'
     \<and> current_holdings p' ''X'' = Some (- 500)
     \<and> current_holdings p' ''commission'' = Some 1
     \<and> current_holdings p' ''cash'' = Some 100499
     \<and> current_holdings p' ''total'' = Some 100499"
  using update_holdings_from_fill_latest_close
    [of "example_fill ''FILL'' ''SELL'' 50" "NaivePortfolio (example_bars 50) 0 100000"
        0 0 100000 100000 "example_bars 50"]
  by (simp add: example_defs)

text \<open>
  C1 as the specification states it fails: a BUY of 10 units that carries the price 50,
  applied when the latest close is 55, raises the value of X from 0 to 550, which is
  not 0 + 1 * 10 * 50.
\<close>

theorem update_holdings_from_fill_fill_price_counterexample:
  "direction (example_fill ''FILL'' ''BUY'' 50) = ''BUY''
   \<and> fill_price (example_fill ''FILL'' ''BUY'' 50) = 50
   \<and> current_holdings (NaivePortfolio (example_bars 55) 0 100000) ''X'' = Some 0
   \<and> (\<exists>p'. update_holdings_from_fill (example_bars 55) (NaivePortfolio (example_bars 55) 0 100000)
              (example_fill ''FILL'' ''BUY'' 50) = Inr p'
          \<and> current_holdings p' ''X'' = Some 550
          \<and> current_holdings p' ''X''
              \<noteq> Some (0 + 1 * quantity (example_fill ''FILL'' ''BUY'' 50)
                             * fill_price (example_fill ''FILL'' ''BUY'' 50)))"
  by (simp add: example_defs update_holdings_from_fill_def dict_iadd_def dict_isub_def)

text \<open>
  C10. A fill of type FILL whose direction is neither BUY nor SELL, on an instrument of
  both ledgers, is applied without error: the positions and the value of the instrument
  stay as they are, the commission grows by the commission of the fill, and cash and
  total shrink by it.
\<close>

theorem update_fill_other_direction:
  assumes "type event = ''FILL''"
    and "direction event \<noteq> ''BUY''" and "direction event \<noteq> ''SELL''"
    and "symbol event \<notin> {''commission'', ''cash'', ''total''}"
    and "current_positions p (symbol event) = Some q"
    and "current_holdings p (symbol event) = Some v"
    and "current_holdings p ''commission'' = Some k"
    and "current_holdings p ''cash'' = Some c"
    and "current_holdings p ''total'' = Some t"
  shows "\<exists>p'. update_fill bars p event = Inr p'
     \<and> current_positions p' = current_positions p
     \<and> current_holdings p' (symbol event) = Some v
     \<and> current_holdings p' ''commission'' = Some (k + commission event)
     \<and> current_holdings p' ''cash'' = Some (c - commission event)
     \<and> current_holdings p' ''total'' = Some (t - commission event)"
proof -
  have same: "(current_positions p)(symbol event \<mapsto> q) = current_positions p"
    using assms(5) by (simp add: fun_upd_idem)
  have pos: "update_positions_from_fill p event = Inr p"
    using assms(2,3,5) by (simp add: update_positions_from_fill_eq same)
  have hold: "update_holdings_from_fill bars p event =
      Inr (p\<lparr>current_holdings := (current_holdings p)
               (symbol event \<mapsto> v, ''commission'' \<mapsto> k + commission event,
                ''cash'' \<mapsto> c - commission event, ''total'' \<mapsto> t - commission event)\<rparr>)"
    using assms(2-4,6-9)
    by (simp add: update_holdings_from_fill_eq [where v = v and k = k and c = c and t = t])
  show ?thesis
    using assms(1,4)
    by (simp add: update_fill_def pos hold update_orders_from_fill_def Let_def)
qed

theorem update_fill_other_direction_witness:
  "\<exists>p'. update_fill (example_bars 50) (NaivePortfolio (example_bars 50) 0 100000)
           (example_fill ''FILL'' ''HOLD'' 50) = Inr p'
     \<and> current_positions p' = current_positions (NaivePortfolio (example_bars 50) 0 100000)
     \<and> current_holdings p' ''X'' = Some 0
     \<and> current_holdings p' ''commission'' = Some 1
     \<and> current_holdings p' ''cash'' = Some 99999
     \<and> current_holdings p' ''total'' = Some 99999"
  using update_fill_other_direction
    [of "example_fill ''FILL'' ''HOLD'' 50" "NaivePortfolio (example_bars 50) 0 100000"
        0 0 0 100000 100000 "example_bars 50"]
  by (simp add: example_defs)

subsection \<open>Events that are not fills\<close>

text \<open>
  C8. An event whose type is not FILL is ignored by \<^verbatim>\<open>update_fill\<close>: no error, and the
  portfolio that comes back is the one that went in, so the current positions, the
  current holdings, the order registry and the fill log are unchanged.
\<close>

theorem update_fill_ignores_other_events:
  "type event \<noteq> ''FILL'' \<Longrightarrow> update_fill bars p event = Inr p"
  by (simp add: update_fill_def)

theorem update_fill_ignores_other_events_witness:
  "type (example_fill ''SIGNAL'' ''BUY'' 50) \<noteq> ''FILL''
   \<and> update_fill (example_bars 50) (NaivePortfolio (example_bars 50) 0 100000)
        (example_fill ''SIGNAL'' ''BUY'' 50)
     = Inr (NaivePortfolio (example_bars 50) 0 100000)"
proof -
  have h: "type (example_fill ''SIGNAL'' ''BUY'' 50) \<noteq> ''FILL''"
    by (simp add: example_fill_def)
  show ?thesis
    using h update_fill_ignores_other_events [OF h] by simp
qed

subsection \<open>The position ledger\<close>

text \<open>
  A fill on an instrument that both ledgers know is applied without error, whatever its
  direction, and the keys of the holdings stay the same.
\<close>

lemma dict_of_symbols_Some: "s \<in> set syms \<Longrightarrow> dict_of_symbols syms x s = Some x"
  by (induction syms) (auto simp add: dict_of_symbols_def)

lemma dict_iadd_dom:
  "k \<in> dom d \<Longrightarrow> \<exists>d'. dict_iadd d k x = Inr d' \<and> dom d' = dom d"
  by (auto simp add: dict_iadd_def)

lemma dict_isub_dom:
  "k \<in> dom d \<Longrightarrow> \<exists>d'. dict_isub d k x = Inr d' \<and> dom d' = dom d"
  by (auto simp add: dict_isub_def)

lemma update_holdings_from_fill_succeeds:
  assumes a: "symbol fill \<in> dom (current_holdings p)"
    and b: "''commission'' \<in> dom (current_holdings p)"
    and c: "''cash'' \<in> dom (current_holdings p)"
    and d: "''total'' \<in> dom (current_holdings p)"
  shows "\<exists>h. update_holdings_from_fill bars p fill = Inr (p\<lparr>current_holdings := h\<rparr>)
     \<and> dom h = dom (current_holdings p)"
proof -
  let ?c = "(if direction fill = ''SELL'' then - 1 else if direction fill = ''BUY'' then 1 else 0)
            * get_latest_bar_value bars (symbol fill) ''close'' * quantity fill"
  obtain d1 where d1: "dict_iadd (current_holdings p) (symbol fill) ?c = Inr d1"
      "dom d1 = dom (current_holdings p)"
    using dict_iadd_dom [OF a, of ?c] by blast
  have "''commission'' \<in> dom d1" using b d1(2) by simp
  then obtain d2 where d2: "dict_iadd d1 ''commission'' (commission fill) = Inr d2"
      "dom d2 = dom d1"
    using dict_iadd_dom [of "''commission''" d1 "commission fill"] by blast
  have "''cash'' \<in> dom d2" using c d1(2) d2(2) by simp
  then obtain d3 where d3: "dict_isub d2 ''cash'' (?c + commission fill) = Inr d3"
      "dom d3 = dom d2"
    using dict_isub_dom [of "''cash''" d2 "?c + commission fill"] by blast
  have "''total'' \<in> dom d3" using d d1(2) d2(2) d3(2) by simp
  then obtain d4 where d4: "dict_isub d3 ''total'' (?c + commission fill) = Inr d4"
      "dom d4 = dom d3"
    using dict_isub_dom [of "''total''" d3 "?c + commission fill"] by blast
  have "update_holdings_from_fill bars p fill = Inr (p\<lparr>current_holdings := d4\<rparr>)"
    using d1(1) d2(1) d3(1) d4(1) by (simp add: update_holdings_from_fill_def)
  moreover have "dom d4 = dom (current_holdings p)"
    using d1(2) d2(2) d3(2) d4(2) by simp
  ultimately show ?thesis by blast
qed

lemma update_fill_position:
  assumes "type event = ''FILL''"
    and "current_positions p (symbol event) = Some q"
    and a: "symbol event \<in> dom (current_holdings p)"
    and b: "''commission'' \<in> dom (current_holdings p)"
    and c: "''cash'' \<in> dom (current_holdings p)"
    and d: "''total'' \<in> dom (current_holdings p)"
  shows "\<exists>p'. update_fill bars p event = Inr p'
     \<and> current_positions p' (symbol event)
         = Some (q + (if direction event = ''SELL'' then - 1
                      else if direction event = ''BUY'' then 1 else 0) * quantity event)
     \<and> dom (current_holdings p') = dom (current_holdings p)"
proof -
  let ?p1 = "p\<lparr>current_positions := (current_positions p)
            (symbol event \<mapsto> q + (if direction event = ''SELL'' then - 1
                                   else if direction event = ''BUY'' then 1 else 0)
                                  * quantity event)\<rparr>"
  have pos: "update_positions_from_fill p event = Inr ?p1"
    using assms(2) by (rule update_positions_from_fill_eq)
  have h1: "current_holdings ?p1 = current_holdings p" by simp
  obtain h where h: "update_holdings_from_fill bars ?p1 event = Inr (?p1\<lparr>current_holdings := h\<rparr>)"
      "dom h = dom (current_holdings ?p1)"
    using update_holdings_from_fill_succeeds [of event ?p1 bars] a b c d unfolding h1
    by blast
  show ?thesis
    using assms(1) h(2)
    by (simp add: update_fill_def pos h(1) update_orders_from_fill_def Let_def)
qed

lemma update_fills_position:
  assumes "\<forall>f\<in>set fills. type f = ''FILL'' \<and> symbol f = s
             \<and> (direction f = ''BUY'' \<or> direction f = ''SELL'')"
    and "current_positions p s = Some q"
    and "s \<in> dom (current_holdings p)"
    and "''commission'' \<in> dom (current_holdings p)"
    and "''cash'' \<in> dom (current_holdings p)"
    and "''total'' \<in> dom (current_holdings p)"
  shows "\<exists>p'. update_fills bars p fills = Inr p'
     \<and> current_positions p' s
         = Some (q + (\<Sum>f\<leftarrow>fills. if direction f = ''BUY'' then quantity f else - quantity f))"
  using assms
proof (induction fills arbitrary: p q)
  case Nil
  then show ?case by simp
next
  case (Cons f fills)
  from Cons.prems(1) have f: "type f = ''FILL''" "symbol f = s"
      "direction f = ''BUY'' \<or> direction f = ''SELL''"
    by simp_all
  from Cons.prems(1) have rest: "\<forall>f\<in>set fills. type f = ''FILL'' \<and> symbol f = s
             \<and> (direction f = ''BUY'' \<or> direction f = ''SELL'')"
    by simp
  let ?d = "if direction f = ''BUY'' then quantity f else - quantity f"
  have sgn: "(if direction f = ''SELL'' then - 1 else if direction f = ''BUY'' then 1 else 0)
               * quantity f = ?d"
    using f(3) by auto
  obtain p1 where p1: "update_fill bars p f = Inr p1"
      "current_positions p1 (symbol f) = Some (q + ?d)"
      "dom (current_holdings p1) = dom (current_holdings p)"
    using update_fill_position [of f p q bars] f(1) Cons.prems(2-6)
    unfolding f(2) sgn by blast
  obtain p' where p': "update_fills bars p1 fills = Inr p'"
      "current_positions p' s
         = Some (q + ?d + (\<Sum>f\<leftarrow>fills. if direction f = ''BUY'' then quantity f else - quantity f))"
    using Cons.IH [of p1 "q + ?d", OF rest] p1(2) Cons.prems(3-6)
    unfolding p1(3) f(2) by blast
  show ?case
    using p1(1) p' by (simp add: add.assoc)
qed

text \<open>
  C4. A fresh portfolio holds 0 of every instrument. Applying any sequence of fills on
  one of its instruments, each with direction BUY or SELL, succeeds and leaves that
  instrument's position at the sum of the signed quantities, +quantity for a BUY and
  -quantity for a SELL. A BUY followed by a SELL of the same quantity therefore ends at
  exactly 0, as the example shows.
\<close>

theorem update_fills_position_is_signed_sum:
  assumes "s \<in> set (bars_symbol_list bars0)"
    and "\<forall>f\<in>set fills. type f = ''FILL'' \<and> symbol f = s
             \<and> (direction f = ''BUY'' \<or> direction f = ''SELL'')"
  shows "\<exists>p'. update_fills bars (NaivePortfolio bars0 start capital) fills = Inr p'
     \<and> current_positions p' s
         = Some (\<Sum>f\<leftarrow>fills. if direction f = ''BUY'' then quantity f else - quantity f)"
proof -
  let ?p = "NaivePortfolio bars0 start capital"
  have pos: "current_positions ?p s = Some 0"
    using assms(1) by (simp add: NaivePortfolio_def Let_def dict_of_symbols_Some)
  have s0: "dict_of_symbols (bars_symbol_list bars0) (0::real) s = Some 0"
    using assms(1) by (rule dict_of_symbols_Some)
  have h: "current_holdings ?p = construct_current_holdings (bars_symbol_list bars0) capital"
    by (simp add: NaivePortfolio_def Let_def)
  have k1: "s \<in> dom (current_holdings ?p)"
    unfolding h using s0 by (simp add: construct_current_holdings_def Let_def dom_def)
  have k2: "''commission'' \<in> dom (current_holdings ?p)"
    unfolding h by (simp add: construct_current_holdings_def Let_def dom_def)
  have k3: "''cash'' \<in> dom (current_holdings ?p)"
    unfolding h by (simp add: construct_current_holdings_def Let_def dom_def)
  have k4: "''total'' \<in> dom (current_holdings ?p)"
    unfolding h by (simp add: construct_current_holdings_def Let_def dom_def)
  from update_fills_position [OF assms(2) pos k1 k2 k3 k4, of bars] show ?thesis by simp
qed

theorem update_fills_position_is_signed_sum_witness:
  "\<exists>p'. update_fills (example_bars 50) (NaivePortfolio (example_bars 50) 0 100000)
           [example_fill ''FILL'' ''BUY'' 50, example_fill ''FILL'' ''SELL'' 50] = Inr p'
     \<and> current_positions p' ''X'' = Some 0"
proof -
  have s: "''X'' \<in> set (bars_symbol_list (example_bars 50))"
    by (simp add: example_bars_def)
  have f: "\<forall>f\<in>set [example_fill ''FILL'' ''BUY'' 50, example_fill ''FILL'' ''SELL'' 50].
             type f = ''FILL'' \<and> symbol f = ''X''
             \<and> (direction f = ''BUY'' \<or> direction f = ''SELL'')"
    by (simp add: example_fill_def)
  show ?thesis
    using update_fills_position_is_signed_sum [OF s f, of "example_bars 50" 0 100000]
    by (simp add: example_fill_def)
qed

subsection \<open>The snapshot total\<close>

lemma update_timeindex_positions_succeeds:
  "\<forall>s\<in>set syms. cur s = Some (q s) \<Longrightarrow> \<exists>dp'. update_timeindex_positions cur syms dp = Inr dp'"
  by (induction syms arbitrary: dp) (simp_all add: dict_get_def)

lemma update_timeindex_holdings_total:
  assumes "\<forall>s\<in>set syms. cur s = Some (q s)"
    and "dh ''total'' = Some (Num t)"
    and "''total'' \<notin> set syms"
  shows "\<exists>dh'. update_timeindex_holdings bars cur syms dh = Inr dh'
     \<and> dh' ''total'' = Some (Num (t + (\<Sum>s\<leftarrow>syms. q s * get_latest_bar_value bars s ''close'')))
     \<and> (\<forall>s\<in>set syms. dh' s = Some (Num (q s * get_latest_bar_value bars s ''close'')))
     \<and> (\<forall>k. k \<notin> set syms \<and> k \<noteq> ''total'' \<longrightarrow> dh' k = dh k)"
  using assms
proof (induction syms arbitrary: dh t)
  case Nil
  then show ?case by simp
next
  case (Cons s syms)
  let ?mv = "q s * get_latest_bar_value bars s ''close''"
  let ?dh1 = "dh(s \<mapsto> Num ?mv, ''total'' \<mapsto> Num (t + ?mv))"
  from Cons.prems have s: "cur s = Some (q s)" "s \<noteq> ''total''"
    and rest: "\<forall>s\<in>set syms. cur s = Some (q s)" "''total'' \<notin> set syms"
    by auto
  have step: "update_timeindex_holdings bars cur (s # syms) dh
                = update_timeindex_holdings bars cur syms ?dh1"
    using s Cons.prems(2) by (simp add: dict_get_def snapshot_iadd_def Let_def)
  have tot: "?dh1 ''total'' = Some (Num (t + ?mv))" by simp
  from Cons.IH [of ?dh1 "t + ?mv"] rest tot
  obtain dh' where dh': "update_timeindex_holdings bars cur syms ?dh1 = Inr dh'"
      "dh' ''total'' = Some (Num (t + ?mv + (\<Sum>s\<leftarrow>syms. q s * get_latest_bar_value bars s ''close'')))"
      "\<forall>s\<in>set syms. dh' s = Some (Num (q s * get_latest_bar_value bars s ''close''))"
      "\<forall>k. k \<notin> set syms \<and> k \<noteq> ''total'' \<longrightarrow> dh' k = ?dh1 k"
    by blast
  have a: "dh' ''total'' = Some (Num (t + (\<Sum>s\<leftarrow>s # syms. q s * get_latest_bar_value bars s ''close'')))"
    using dh'(2) by (simp add: add.assoc)
  have b: "\<forall>x\<in>set (s # syms). dh' x = Some (Num (q x * get_latest_bar_value bars x ''close''))"
  proof
    fix x assume x: "x \<in> set (s # syms)"
    show "dh' x = Some (Num (q x * get_latest_bar_value bars x ''close''))"
    proof (cases "x \<in> set syms")
      case True
      with dh'(3) show ?thesis by blast
    next
      case False
      with x have "x = s" by simp
      with False s(2) dh'(4) show ?thesis by simp
    qed
  qed
  have c: "\<forall>k. k \<notin> set (s # syms) \<and> k \<noteq> ''total'' \<longrightarrow> dh' k = dh k"
    using dh'(4) by simp
  show ?case
    unfolding step using dh'(1) a b c by blast
qed

text \<open>
  C3. Let the instruments be distinct and none of them be named cash or total, and let the
  ledgers hold a position for each instrument, the cash and the commission. Then the
  snapshot succeeds and appends one holdings record, in which every instrument is valued
  at its position times the latest close, the cash is the current cash, and the total is
  the cash plus the sum of these values over all instruments.
\<close>

theorem update_timeindex_total:
  assumes "symbol_list p \<noteq> []"
    and "distinct (symbol_list p)"
    and "''cash'' \<notin> set (symbol_list p)"
    and "''total'' \<notin> set (symbol_list p)"
    and "\<forall>s\<in>set (symbol_list p). current_positions p s = Some (q s)"
    and "current_holdings p ''cash'' = Some c"
    and "current_holdings p ''commission'' = Some k"
  shows "\<exists>p' dh. update_timeindex bars p = Inr p'
     \<and> all_holdings p' = all_holdings p @ [dh]
     \<and> dh ''cash'' = Some (Num c)
     \<and> (\<forall>s\<in>set (symbol_list p).
           dh s = Some (Num (q s * get_latest_bar_value bars s ''close'')))
     \<and> dh ''total''
         = Some (Num (c + (\<Sum>s\<in>set (symbol_list p). q s * get_latest_bar_value bars s ''close'')))"
proof -
  obtain s0 ss where syms: "symbol_list p = s0 # ss"
    using assms(1) by (cases "symbol_list p") auto
  let ?t = "get_latest_bar_datetime bars s0"
  let ?dp = "(dict_of_symbols (symbol_list p) (Num 0))(''datetime'' \<mapsto> Stamp ?t)"
  let ?dh = "(dict_of_symbols (symbol_list p) (Num 0))
               (''datetime'' \<mapsto> Stamp ?t, ''cash'' \<mapsto> Num c,
                ''commission'' \<mapsto> Num k, ''total'' \<mapsto> Num c)"
  obtain dp' where dp': "update_timeindex_positions (current_positions p) (symbol_list p) ?dp = Inr dp'"
    using update_timeindex_positions_succeeds
      [of "symbol_list p" "current_positions p" q ?dp] assms(5)
    by blast
  have tot: "?dh ''total'' = Some (Num c)" by simp
  obtain dh' where dh': "update_timeindex_holdings bars (current_positions p) (symbol_list p) ?dh = Inr dh'"
      "dh' ''total'' = Some (Num (c + (\<Sum>s\<leftarrow>symbol_list p. q s * get_latest_bar_value bars s ''close'')))"
      "\<forall>s\<in>set (symbol_list p). dh' s = Some (Num (q s * get_latest_bar_value bars s ''close''))"
      "\<forall>k. k \<notin> set (symbol_list p) \<and> k \<noteq> ''total'' \<longrightarrow> dh' k = ?dh k"
    using update_timeindex_holdings_total
      [of "symbol_list p" "current_positions p" q ?dh c bars] assms(5) tot assms(4)
    by blast
  have run: "update_timeindex bars p =
      Inr (p\<lparr>all_positions := all_positions p @ [dp'], all_holdings := all_holdings p @ [dh']\<rparr>)"
    using dp' dh'(1) assms(6,7)
    by (simp add: update_timeindex_def syms dict_get_def Let_def)
  have cash: "dh' ''cash'' = Some (Num c)"
    using dh'(4) assms(3) by simp
  have sum: "(\<Sum>s\<leftarrow>symbol_list p. q s * get_latest_bar_value bars s ''close'')
              = (\<Sum>s\<in>set (symbol_list p). q s * get_latest_bar_value bars s ''close'')"
    using assms(2) by (rule sum_list_distinct_conv_sum_set)
  show ?thesis
    using run cash dh'(3) dh'(2) unfolding sum by simp
qed

theorem update_timeindex_total_witness:
  "\<exists>p' dh. update_timeindex (example_bars 55)
              ((NaivePortfolio (example_bars 55) 0 100000)\<lparr>current_positions := [''X'' \<mapsto> 10]\<rparr>)
            = Inr p'
     \<and> all_holdings p' = all_holdings (NaivePortfolio (example_bars 55) 0 100000) @ [dh]
     \<and> dh ''cash'' = Some (Num 100000)
     \<and> dh ''X'' = Some (Num 550)
     \<and> dh ''total'' = Some (Num 100550)"
  using update_timeindex_total
    [of "(NaivePortfolio (example_bars 55) 0 100000)\<lparr>current_positions := [''X'' \<mapsto> 10]\<rparr>"
        "\<lambda>s. 10" 100000 0 "example_bars 55"]
  by (simp add: example_defs)

subsection \<open>Order generation\<close>

text \<open>
  C5. For a signal on an instrument with position \<open>q\<close>, the order is a function of \<open>q\<close>
  and the signal alone, and exactly one row of the table applies: LONG gives a BUY of the
  signal's quantity, SHORT a SELL of the signal's quantity, EXIT with \<open>q > 0\<close> a SELL of
  \<open>\<bar>q\<bar>\<close>, EXIT with \<open>q < 0\<close> a BUY of \<open>\<bar>q\<bar>\<close>, and anything else, EXIT with \<open>q = 0\<close>
  included, gives no order.
\<close>

theorem generate_naive_order_rules:
  assumes "current_positions p (symbol signal) = Some q"
  shows "generate_naive_order OrderEvent p signal =
     Inr (if signal_type signal = ''LONG'' then Some (OrderEvent signal (quantity signal) ''BUY'')
          else if signal_type signal = ''SHORT'' then Some (OrderEvent signal (quantity signal) ''SELL'')
          else if signal_type signal = ''EXIT'' \<and> q > 0 then Some (OrderEvent signal \<bar>q\<bar> ''SELL'')
          else if signal_type signal = ''EXIT'' \<and> q < 0 then Some (OrderEvent signal \<bar>q\<bar> ''BUY'')
          else None)"
  using assms by (simp add: generate_naive_order_def dict_get_def Let_def)

text \<open>One example for each row; the order is shown as (symbol, quantity, direction).\<close>

theorem generate_naive_order_rules_witness:
  "generate_naive_order (\<lambda>s q d. (symbol s, q, d)) (NaivePortfolio (example_bars 50) 0 100000)
      (example_signal ''LONG'') = Inr (Some (''X'', 10, ''BUY''))
   \<and> generate_naive_order (\<lambda>s q d. (symbol s, q, d)) (NaivePortfolio (example_bars 50) 0 100000)
      (example_signal ''SHORT'') = Inr (Some (''X'', 10, ''SELL''))
   \<and> generate_naive_order (\<lambda>s q d. (symbol s, q, d)) (NaivePortfolio (example_bars 50) 0 100000)
      (example_signal ''EXIT'') = Inr None
   \<and> generate_naive_order (\<lambda>s q d. (symbol s, q, d))
        ((NaivePortfolio (example_bars 50) 0 100000)\<lparr>current_positions := [''X'' \<mapsto> 7]\<rparr>)
      (example_signal ''EXIT'') = Inr (Some (''X'', 7, ''SELL''))
   \<and> generate_naive_order (\<lambda>s q d. (symbol s, q, d))
        ((NaivePortfolio (example_bars 50) 0 100000)\<lparr>current_positions := [''X'' \<mapsto> - 7]\<rparr>)
      (example_signal ''EXIT'') = Inr (Some (''X'', 7, ''BUY''))"
  using
    generate_naive_order_rules [of "NaivePortfolio (example_bars 50) 0 100000"
      "example_signal ''LONG''" 0 "\<lambda>s q d. (symbol s, q, d)"]
    generate_naive_order_rules [of "NaivePortfolio (example_bars 50) 0 100000"
      "example_signal ''SHORT''" 0 "\<lambda>s q d. (symbol s, q, d)"]
    generate_naive_order_rules [of "NaivePortfolio (example_bars 50) 0 100000"
      "example_signal ''EXIT''" 0 "\<lambda>s q d. (symbol s, q, d)"]
    generate_naive_order_rules
      [of "(NaivePortfolio (example_bars 50) 0 100000)\<lparr>current_positions := [''X'' \<mapsto> 7]\<rparr>"
      "example_signal ''EXIT''" 7 "\<lambda>s q d. (symbol s, q, d)"]
    generate_naive_order_rules
      [of "(NaivePortfolio (example_bars 50) 0 100000)\<lparr>current_positions := [''X'' \<mapsto> - 7]\<rparr>"
      "example_signal ''EXIT''" "- 7" "\<lambda>s q d. (symbol s, q, d)"]
  by (simp add: example_defs example_signal_def)

text \<open>
  C9. For an event of type SIGNAL on an instrument of the position ledger,
  \<^verbatim>\<open>update_signal\<close> puts exactly one item at the end of the queue, and the item is None
  exactly when no sizing rule fires: for EXIT with position 0, and for a signal kind
  other than LONG, SHORT and EXIT.
\<close>

theorem update_signal_puts_one_item:
  assumes "type event = ''SIGNAL''"
    and "current_positions p (symbol event) = Some q"
  shows "\<exists>item. update_signal OrderEvent p events event = Inr (events @ [item])
     \<and> (item = None \<longleftrightarrow>
          (signal_type event = ''EXIT'' \<and> q = 0)
          \<or> signal_type event \<notin> {''LONG'', ''SHORT'', ''EXIT''})"
  using assms
  by (auto simp add: update_signal_def generate_naive_order_def dict_get_def Let_def)

theorem update_signal_puts_one_item_witness:
  "update_signal (\<lambda>s q d. (symbol s, q, d)) (NaivePortfolio (example_bars 50) 0 100000) []
      (example_signal ''EXIT'') = Inr [None]
   \<and> update_signal (\<lambda>s q d. (symbol s, q, d)) (NaivePortfolio (example_bars 50) 0 100000) []
      (example_signal ''HOLD'') = Inr [None]"
  using
    update_signal_puts_one_item [of "example_signal ''EXIT''"
      "NaivePortfolio (example_bars 50) 0 100000" 0 "\<lambda>s q d. (symbol s, q, d)" "[]"]
    update_signal_puts_one_item [of "example_signal ''HOLD''"
      "NaivePortfolio (example_bars 50) 0 100000" 0 "\<lambda>s q d. (symbol s, q, d)" "[]"]
  by (auto simp add: example_defs example_signal_def)

subsection \<open>Scenario A\<close>

text \<open>
  C7. One instrument X, initial capital 100000. A BUY fill of 10 units with commission 1,
  applied when the latest close is 50, gives position 10 and cash 99499. The snapshot of
  the next bar, whose close is 55, values X at 550 and has total 100049.
\<close>

theorem scenario_A_buy_then_snapshot:
  "\<exists>p1 p2 dh.
      update_fill (example_bars 50) (NaivePortfolio (example_bars 50) 0 100000)
        (example_fill ''FILL'' ''BUY'' 50) = Inr p1
    \<and> current_positions p1 ''X'' = Some 10
    \<and> current_holdings p1 ''cash'' = Some 99499
    \<and> update_timeindex (example_bars 55) p1 = Inr p2
    \<and> all_holdings p2 = all_holdings p1 @ [dh]
    \<and> dh ''X'' = Some (Num 550)
    \<and> dh ''total'' = Some (Num 100049)"
  by (simp add: example_defs update_fill_def update_positions_from_fill_def
      update_holdings_from_fill_def dict_iadd_def dict_isub_def update_orders_from_fill_def
      update_timeindex_def dict_get_def snapshot_iadd_def Let_def)

subsection \<open>The equity curve\<close>

lemma column_total_numbers:
  "map (\<lambda>d. d ''total'') ds = map (\<lambda>x. Some (Num x)) totals
   \<Longrightarrow> column_total ds = Inr (map Fin totals)"
proof (induction ds arbitrary: totals)
  case Nil
  then show ?case by simp
next
  case (Cons d ds)
  then obtain x xs where t: "totals = x # xs" by (cases totals) auto
  with Cons.prems have "d ''total'' = Some (Num x)"
    and "map (\<lambda>d. d ''total'') ds = map (\<lambda>x. Some (Num x)) xs"
    by simp_all
  with Cons.IH [of xs] t show ?case by simp
qed

lemma length_shift: "length (shift xs) = length xs"
  by (cases xs) (simp_all add: shift_def)

lemma nth_shift:
  assumes "t < length xs"
  shows "shift xs ! t = (if t = 0 then NaN else xs ! (t - 1))"
proof (cases t)
  case 0
  with assms show ?thesis by (cases xs) (simp_all add: shift_def)
next
  case (Suc n)
  from assms have sh: "shift xs = NaN # butlast xs"
    by (cases xs) (simp_all add: shift_def del: butlast.simps)
  from assms Suc have "n < length (butlast xs)" by simp
  then have "butlast xs ! n = xs ! n" by (rule nth_butlast)
  with Suc show ?thesis by (simp add: sh)
qed

lemma float_truediv_NaN: "float_truediv x NaN = NaN"
  by (cases x) simp_all

lemma length_pct_change: "length (pct_change xs) = length xs"
  by (simp add: pct_change_def length_shift)

lemma nth_pct_change:
  assumes "t < length xs"
  shows "pct_change xs ! t =
     (if t = 0 then NaN else float_sub (float_truediv (xs ! t) (xs ! (t - 1))) (Fin 1))"
proof -
  have "pct_change xs ! t = float_sub (float_truediv (xs ! t) (shift xs ! t)) (Fin 1)"
    using assms by (simp add: pct_change_def length_shift)
  then show ?thesis
    using assms by (simp add: nth_shift float_sub_def float_truediv_NaN)
qed

lemma length_cumprod_from: "length (cumprod_from acc xs) = length xs"
  by (induction xs arbitrary: acc) simp_all

lemma nth_cumprod_from:
  "t < length xs \<Longrightarrow>
   cumprod_from acc xs ! t =
     (if xs ! t = NaN then NaN
      else foldl float_mul acc (filter (\<lambda>x. x \<noteq> NaN) (take (Suc t) xs)))"
proof (induction xs arbitrary: acc t)
  case Nil
  then show ?case by simp
next
  case (Cons x xs)
  show ?case
  proof (cases t)
    case 0
    then show ?thesis by simp
  next
    case (Suc n)
    with Cons.prems have "n < length xs" by simp
    from Cons.IH [OF this] Suc show ?thesis by simp
  qed
qed

lemma one_plus_NaN: "float_add (Fin 1) r = NaN \<longleftrightarrow> r = NaN"
  by (cases r) simp_all

lemma nth_cumprod_one_plus:
  assumes "t < length rs"
  shows "cumprod (map (float_add (Fin 1)) rs) ! t =
     (if rs ! t = NaN then NaN else product_of_defined_returns rs t)"
proof -
  have "filter (\<lambda>x. x \<noteq> NaN) (take (Suc t) (map (float_add (Fin 1)) rs))
        = map (float_add (Fin 1)) (filter (\<lambda>r. r \<noteq> NaN) (take (Suc t) rs))"
    by (simp add: take_map filter_map comp_def one_plus_NaN)
  then show ?thesis
    using assms
    by (simp add: cumprod_def nth_cumprod_from one_plus_NaN product_of_defined_returns_def)
qed

lemma finite_return:
  "b \<noteq> 0 \<Longrightarrow> float_sub (float_truediv (Fin a) (Fin b)) (Fin 1) = Fin (a / b - 1)"
  by (simp add: float_sub_def)

text \<open>
  Every holdings record of a run has a number as its total: the constructor's record has
  the initial capital, a snapshot appends a record with a number, and a fill appends
  nothing.
\<close>

lemma NaivePortfolio_totals:
  "map (\<lambda>d. d ''total'') (all_holdings (NaivePortfolio bars start capital))
     = map (\<lambda>x. Some (Num x)) [capital]"
  by (simp add: NaivePortfolio_def construct_all_holdings_def Let_def)

lemma update_fill_all_holdings:
  assumes "update_fill bars p event = Inr p'"
  shows "all_holdings p' = all_holdings p"
proof (cases "type event = ''FILL''")
  case False
  with assms show ?thesis by (simp add: update_fill_def)
next
  case True
  from assms True obtain p1 where p1: "update_positions_from_fill p event = Inr p1"
    by (cases "update_positions_from_fill p event") (simp_all add: update_fill_def)
  from assms True p1 obtain p2 where p2: "update_holdings_from_fill bars p1 event = Inr p2"
    by (cases "update_holdings_from_fill bars p1 event") (simp_all add: update_fill_def)
  have a1: "all_holdings p1 = all_holdings p"
    using p1 by (auto simp add: update_positions_from_fill_def bind_err_def Let_def split: sum.splits)
  have a2: "all_holdings p2 = all_holdings p1"
    using p2 by (auto simp add: update_holdings_from_fill_def bind_err_def Let_def split: sum.splits)
  from assms True p1 p2 have "p' = (update_orders_from_fill p2 event)
      \<lparr>all_fills := all_fills (update_orders_from_fill p2 event) @ [vars_with_order_id event]\<rparr>"
    by (simp add: update_fill_def Let_def)
  then show ?thesis
    using a1 a2 by (simp add: update_orders_from_fill_def Let_def)
qed

lemma update_timeindex_holdings_number:
  "update_timeindex_holdings bars cur syms dh = Inr dh' \<Longrightarrow> dh ''total'' = Some (Num t)
   \<Longrightarrow> \<exists>t'. dh' ''total'' = Some (Num t')"
proof (induction syms arbitrary: dh t)
  case Nil
  then show ?case by simp
next
  case (Cons s syms)
  from Cons.prems(1) obtain q where q: "cur s = Some q"
    by (cases "cur s") (simp_all add: dict_get_def)
  let ?mv = "q * get_latest_bar_value bars s ''close''"
  let ?dh0 = "dh(s \<mapsto> Num ?mv)"
  obtain t0 where t0: "?dh0 ''total'' = Some (Num t0)"
    using Cons.prems(2) by (cases "s = ''total''") simp_all
  let ?dh1 = "?dh0(''total'' \<mapsto> Num (t0 + ?mv))"
  have "update_timeindex_holdings bars cur (s # syms) dh
          = update_timeindex_holdings bars cur syms ?dh1"
    using q t0 by (simp add: dict_get_def snapshot_iadd_def Let_def)
  with Cons.prems(1) have "update_timeindex_holdings bars cur syms ?dh1 = Inr dh'"
    by simp
  moreover have "?dh1 ''total'' = Some (Num (t0 + ?mv))" by simp
  ultimately show ?case by (rule Cons.IH)
qed

lemma update_timeindex_totals:
  assumes "update_timeindex bars p = Inr p'"
    and "map (\<lambda>d. d ''total'') (all_holdings p) = map (\<lambda>x. Some (Num x)) totals"
  shows "\<exists>x. map (\<lambda>d. d ''total'') (all_holdings p') = map (\<lambda>x. Some (Num x)) (totals @ [x])"
proof -
  from assms(1) obtain s0 ss where syms: "symbol_list p = s0 # ss"
    by (cases "symbol_list p") (simp_all add: update_timeindex_def)
  let ?t = "get_latest_bar_datetime bars s0"
  let ?dp = "(dict_of_symbols (symbol_list p) (Num 0))(''datetime'' \<mapsto> Stamp ?t)"
  from assms(1) syms obtain dp' where
    dp': "update_timeindex_positions (current_positions p) (symbol_list p) ?dp = Inr dp'"
    by (cases "update_timeindex_positions (current_positions p) (symbol_list p) ?dp")
       (simp_all add: update_timeindex_def Let_def)
  from assms(1) syms dp' obtain c where c: "current_holdings p ''cash'' = Some c"
    by (cases "current_holdings p ''cash''") (simp_all add: update_timeindex_def Let_def dict_get_def)
  from assms(1) syms dp' c obtain k where k: "current_holdings p ''commission'' = Some k"
    by (cases "current_holdings p ''commission''")
       (simp_all add: update_timeindex_def Let_def dict_get_def)
  let ?dh = "(dict_of_symbols (symbol_list p) (Num 0))
               (''datetime'' \<mapsto> Stamp ?t, ''cash'' \<mapsto> Num c,
                ''commission'' \<mapsto> Num k, ''total'' \<mapsto> Num c)"
  from assms(1) syms dp' c k obtain dh' where
    dh': "update_timeindex_holdings bars (current_positions p) (symbol_list p) ?dh = Inr dh'"
    and p': "p' = p\<lparr>all_positions := all_positions p @ [dp'], all_holdings := all_holdings p @ [dh']\<rparr>"
    by (cases "update_timeindex_holdings bars (current_positions p) (symbol_list p) ?dh")
       (simp_all add: update_timeindex_def Let_def dict_get_def)
  have "?dh ''total'' = Some (Num c)" by simp
  with dh' obtain x where "dh' ''total'' = Some (Num x)"
    using update_timeindex_holdings_number by blast
  with assms(2) p' show ?thesis by simp
qed

text \<open>
  The holdings records of a run also have the column \<^verbatim>\<open>'datetime'\<close>: the constructor's
  record has the key, and a snapshot only appends.
\<close>

lemma NaivePortfolio_datetime:
  "\<exists>d\<in>set (all_holdings (NaivePortfolio bars start capital)). d ''datetime'' \<noteq> None"
  by (simp add: NaivePortfolio_def construct_all_holdings_def Let_def)

lemma update_timeindex_appends:
  assumes "update_timeindex bars p = Inr p'"
  shows "\<exists>dh. all_holdings p' = all_holdings p @ [dh]"
  using assms
  by (auto simp add: update_timeindex_def Let_def bind_err_def split: list.splits sum.splits)

lemma update_timeindex_datetime:
  assumes "update_timeindex bars p = Inr p'"
    and "\<exists>d\<in>set (all_holdings p). d ''datetime'' \<noteq> None"
  shows "\<exists>d\<in>set (all_holdings p'). d ''datetime'' \<noteq> None"
proof -
  from update_timeindex_appends [OF assms(1)]
  obtain dh where "all_holdings p' = all_holdings p @ [dh]" by blast
  with assms(2) show ?thesis by auto
qed

lemma create_equity_curve_dataframe_no_datetime:
  assumes "\<forall>d\<in>set (all_holdings p). d ''datetime'' = None"
  shows "create_equity_curve_dataframe p = Inl (KeyError ''datetime'')"
proof -
  have "set_index_datetime (all_holdings p) = Inl (KeyError ''datetime'')"
    using assms by (simp add: set_index_datetime_def list_ex_iff)
  then show ?thesis
    by (simp add: create_equity_curve_dataframe_def)
qed

lemma set_index_datetime_Inr:
  "\<exists>d\<in>set ds. d ''datetime'' \<noteq> None \<Longrightarrow> set_index_datetime ds = Inr ds"
  by (simp add: set_index_datetime_def list_ex_iff)

text \<open>
  C6, as the code has it. When the holdings records have the column \<^verbatim>\<open>'datetime'\<close> (at
  least one record has the key) and every record has a number as its total, the
  equity curve is built without error, with one return and one equity value per record.
  The first return is NaN, and the return at every later index \<open>t\<close> is
  \<open>total t / total (t - 1) - 1\<close> (a finite number when the earlier total is not 0, by
  \<open>finite_return\<close>). The equity value at \<open>t\<close> is NaN where the return at \<open>t\<close> is NaN, so
  at index 0, and otherwise the product of \<open>1 + return\<close> over the defined returns up to
  \<open>t\<close>.
\<close>

theorem create_equity_curve_dataframe_columns:
  assumes "\<exists>d\<in>set (all_holdings p). d ''datetime'' \<noteq> None"
    and "map (\<lambda>d. d ''total'') (all_holdings p) = map (\<lambda>x. Some (Num x)) totals"
  shows "\<exists>curve. create_equity_curve_dataframe p = Inr (p\<lparr>equity_curve := Some curve\<rparr>)
     \<and> length (returns curve) = length totals
     \<and> length (equity_curve_column curve) = length totals
     \<and> (\<forall>t<length totals.
           returns curve ! t =
             (if t = 0 then NaN
              else float_sub (float_truediv (Fin (totals ! t)) (Fin (totals ! (t - 1)))) (Fin 1))
         \<and> equity_curve_column curve ! t =
             (if returns curve ! t = NaN then NaN
              else product_of_defined_returns (returns curve) t))"
proof -
  let ?rs = "pct_change (map Fin totals)"
  let ?curve = "\<lparr> rows = all_holdings p, returns = ?rs,
                   equity_curve_column = cumprod (map (float_add (Fin 1)) ?rs),
                   drawdown = None \<rparr>"
  have run: "create_equity_curve_dataframe p = Inr (p\<lparr>equity_curve := Some ?curve\<rparr>)"
    using set_index_datetime_Inr [OF assms(1)] column_total_numbers [OF assms(2)]
    by (simp add: create_equity_curve_dataframe_def Let_def)
  have len: "length ?rs = length totals"
    by (simp add: length_pct_change)
  have len2: "length (cumprod (map (float_add (Fin 1)) ?rs)) = length totals"
    by (simp add: cumprod_def length_cumprod_from length_pct_change)
  have r: "\<forall>t<length totals. ?rs ! t =
             (if t = 0 then NaN
              else float_sub (float_truediv (Fin (totals ! t)) (Fin (totals ! (t - 1)))) (Fin 1))"
    by (simp add: nth_pct_change)
  have e: "\<forall>t<length totals. cumprod (map (float_add (Fin 1)) ?rs) ! t =
             (if ?rs ! t = NaN then NaN else product_of_defined_returns ?rs t)"
    using len by (simp add: nth_cumprod_one_plus)
  show ?thesis
    using run len len2 r e by (intro exI [of _ ?curve]) simp
qed

text \<open>
  Records with a timestamp and totals 100, 110, 99: returns NaN, 1/10, -1/10 and equity
  values NaN, 11/10, 99/100.
\<close>

theorem create_equity_curve_dataframe_columns_witness:
  "create_equity_curve_dataframe
       ((NaivePortfolio (example_bars 50) 0 100)\<lparr>all_holdings := example_holdings [100, 110, 99]\<rparr>)
     = Inr ((NaivePortfolio (example_bars 50) 0 100)
              \<lparr>all_holdings := example_holdings [100, 110, 99],
               equity_curve := Some
                 \<lparr> rows = example_holdings [100, 110, 99],
                   returns = [NaN, Fin (1 / 10), Fin (- (1 / 10))],
                   equity_curve_column = [NaN, Fin (11 / 10), Fin (99 / 100)],
                   drawdown = None \<rparr>\<rparr>)
   \<and> product_of_defined_returns [NaN, Fin (1 / 10), Fin (- (1 / 10))] 1 = Fin (11 / 10)
   \<and> product_of_defined_returns [NaN, Fin (1 / 10), Fin (- (1 / 10))] 2 = Fin (99 / 100)"
proof -
  let ?p = "(NaivePortfolio (example_bars 50) 0 100)\<lparr>all_holdings := example_holdings [100, 110, 99]\<rparr>"
  have d: "\<exists>d\<in>set (all_holdings ?p). d ''datetime'' \<noteq> None"
    by (simp add: example_holdings_def)
  have h: "map (\<lambda>d. d ''total'') (all_holdings ?p) = map (\<lambda>x. Some (Num x)) [100, 110, 99]"
    by (simp add: example_holdings_def)
  show ?thesis
    using create_equity_curve_dataframe_columns [OF d h]
    by (simp add: example_holdings_def create_equity_curve_dataframe_def
        set_index_datetime_def pct_change_def
        shift_def cumprod_def float_sub_def product_of_defined_returns_def numeral_2_eq_2)
qed

text \<open>
  C6 as the specification states it fails at index 0: for a fresh portfolio the only
  return is NaN, the product over the defined returns up to index 0 is the empty product
  1, and the equity curve holds NaN there.
\<close>

theorem equity_curve_first_value_counterexample:
  "create_equity_curve_dataframe (NaivePortfolio (example_bars 50) 0 100000)
     = Inr ((NaivePortfolio (example_bars 50) 0 100000)
              \<lparr>equity_curve := Some
                 \<lparr> rows = all_holdings (NaivePortfolio (example_bars 50) 0 100000),
                   returns = [NaN], equity_curve_column = [NaN], drawdown = None \<rparr>\<rparr>)
   \<and> product_of_defined_returns [NaN] 0 = Fin 1
   \<and> [NaN] ! 0 \<noteq> product_of_defined_returns [NaN] 0"
  by (simp add: example_defs create_equity_curve_dataframe_def set_index_datetime_def
      pct_change_def shift_def cumprod_def float_sub_def product_of_defined_returns_def)

subsection \<open>The summary without orders\<close>

lemma column_profit_Nil: "column_profit [] = Inl (KeyError ''profit'')"
  by (simp add: column_profit_def)

text \<open>
  C2 does not hold of the code. With an empty order registry the order history is a
  dataframe without columns, and the summary ends in an error whatever the performance
  functions and the rounding do: if nothing fails earlier, the lookup of the column
  \<^verbatim>\<open>'profit'\<close> raises KeyError. The division by the trade count, which is not guarded
  either, is never reached.
\<close>

theorem output_summary_stats_no_orders:
  assumes "all_orders p = []"
  shows "\<exists>e. output_summary_stats create_sharpe_ratio create_drawdowns py_round
           (create_order_history_dataframe p) = Inl e"
proof (cases "equity_curve p")
  case None
  then show ?thesis
    by (simp add: output_summary_stats_def create_order_history_dataframe_def)
next
  case (Some curve)
  show ?thesis
  proof (cases "equity_curve_column curve = []")
    case True
    with Some show ?thesis
      by (simp add: output_summary_stats_def create_order_history_dataframe_def)
  next
    case False
    show ?thesis
    proof (cases "create_sharpe_ratio (returns curve) (252 * 6)")
      case (Inl e)
      with Some False show ?thesis
        by (simp add: output_summary_stats_def create_order_history_dataframe_def)
    next
      case sr: (Inr sharpe)
      show ?thesis
      proof (cases "create_drawdowns (equity_curve_column curve)")
        case (Inl e)
        with Some False sr show ?thesis
          by (simp add: output_summary_stats_def create_order_history_dataframe_def)
      next
        case (Inr dd)
        with Some False sr assms show ?thesis
          by (cases dd)
             (simp add: output_summary_stats_def create_order_history_dataframe_def
                column_profit_Nil)
      qed
    qed
  qed
qed

text \<open>
  A fresh portfolio with its equity curve built, performance functions that succeed and
  a rounding that changes nothing: the summary is KeyError on \<^verbatim>\<open>'profit'\<close>.
\<close>

theorem output_summary_stats_no_orders_witness:
  "all_orders
     ((NaivePortfolio (example_bars 50) 0 100000)
        \<lparr>equity_curve := Some
           \<lparr> rows = all_holdings (NaivePortfolio (example_bars 50) 0 100000),
             returns = [NaN], equity_curve_column = [NaN], drawdown = None \<rparr>\<rparr>) = []
   \<and> output_summary_stats (\<lambda>returns periods. Inr 0) (\<lambda>pnl. Inr (pnl, 0, 0)) (\<lambda>x ndigits. x)
       (create_order_history_dataframe
         ((NaivePortfolio (example_bars 50) 0 100000)
            \<lparr>equity_curve := Some
               \<lparr> rows = all_holdings (NaivePortfolio (example_bars 50) 0 100000),
                 returns = [NaN], equity_curve_column = [NaN], drawdown = None \<rparr>\<rparr>))
     = Inl (KeyError ''profit'')"
proof -
  let ?p = "(NaivePortfolio (example_bars 50) 0 100000)
        \<lparr>equity_curve := Some
           \<lparr> rows = all_holdings (NaivePortfolio (example_bars 50) 0 100000),
             returns = [NaN], equity_curve_column = [NaN], drawdown = None \<rparr>\<rparr>"
  have h: "all_orders ?p = []"
    by (simp add: NaivePortfolio_def Let_def)
  show ?thesis
    using h output_summary_stats_no_orders [OF h, of "\<lambda>returns periods. Inr 0"
      "\<lambda>pnl. Inr (pnl, 0, 0)" "\<lambda>x ndigits. x"]
    by (simp add: output_summary_stats_def create_order_history_dataframe_def column_profit_Nil)
qed

end
